theory Spec2Isabelle
  imports Main "HOL-Library.Word" "HOL-Library.Log_Nat"
begin

section \<open>JavaScript values\<close>

subsection \<open>Strings\<close>

text \<open>
  A JavaScript string is a sequence of UTF-16 code units; \<open>charCodeAt\<close> reads one of them
  and \<open>length\<close> counts them. \<open>js\<close> writes an ASCII literal as such a sequence.
\<close>

type_synonym jsstring = "16 word list"

definition js :: "string \<Rightarrow> jsstring" where
  "js s = map (\<lambda>c. of_nat (of_char c)) s"

definition digitChar :: "int \<Rightarrow> 16 word" where
  "digitChar d = (if d < 10 then of_int (48 + d) else of_int (87 + d))"

text \<open>\<open>Number.prototype.toString(radix)\<close> on a non-negative integer.\<close>

function toStringRadix :: "int \<Rightarrow> int \<Rightarrow> jsstring" where
  "toStringRadix radix n =
     (if n < radix \<or> radix < 2 then [digitChar n]
      else toStringRadix radix (n div radix) @ [digitChar (n mod radix)])"
  by pat_completeness auto
termination
proof (relation "measure (\<lambda>(radix, n). nat n)")
  fix radix n :: int
  assume "\<not> (n < radix \<or> radix < 2)"
  then have "0 < n" and "1 < radix" by simp_all
  then have "n div radix < n" by (rule int_div_less_self)
  with \<open>0 < n\<close> show "((radix, n div radix), (radix, n)) \<in> measure (\<lambda>(radix, n). nat n)"
    by simp
qed simp

declare toStringRadix.simps [simp del]

text \<open>\<open>Array.prototype.join\<close> and \<open>String.prototype.split\<close> with a one-unit separator.\<close>

fun joinWith :: "jsstring \<Rightarrow> jsstring list \<Rightarrow> jsstring" where
  "joinWith sep [] = []"
| "joinWith sep [x] = x"
| "joinWith sep (x # y # ys) = x @ sep @ joinWith sep (y # ys)"

fun splitOn :: "16 word \<Rightarrow> jsstring \<Rightarrow> jsstring list" where
  "splitOn sep [] = [[]]"
| "splitOn sep (c # cs) =
     (if c = sep then [] # splitOn sep cs
      else (case splitOn sep cs of [] \<Rightarrow> [[c]] | piece # pieces \<Rightarrow> (c # piece) # pieces))"

text \<open>
  The character classes of the regular expression in \<open>translateBatch\<close>: \<open>\d\<close>, the line
  terminators (which \<open>.\<close> does not match) and \<open>\s\<close>, which is also what \<open>trim\<close> strips.
\<close>

definition isDigit :: "16 word \<Rightarrow> bool" where
  "isDigit c = (48 \<le> c \<and> c \<le> 57)"

definition isLineTerminator :: "16 word \<Rightarrow> bool" where
  "isLineTerminator c = (c = 0x0A \<or> c = 0x0D \<or> c = 0x2028 \<or> c = 0x2029)"

definition isWhiteSpace :: "16 word \<Rightarrow> bool" where
  "isWhiteSpace c =
     (c = 0x09 \<or> c = 0x0B \<or> c = 0x0C \<or> c = 0x20 \<or> c = 0xA0 \<or> c = 0x1680 \<or>
      (0x2000 \<le> c \<and> c \<le> 0x200A) \<or> c = 0x202F \<or> c = 0x205F \<or> c = 0x3000 \<or> c = 0xFEFF \<or>
      isLineTerminator c)"

definition trim :: "jsstring \<Rightarrow> jsstring" where
  "trim s = rev (dropWhile isWhiteSpace (rev (dropWhile isWhiteSpace s)))"

text \<open>
  \<open>parseInt\<close> on a string of decimal digits. (Beyond \<open>2 ^ 53\<close> JavaScript rounds the value;
  such a value is no index of an array either way.)
\<close>

definition parseInt :: "jsstring \<Rightarrow> nat" where
  "parseInt ds = fold (\<lambda>d n. 10 * n + unat (d - 48)) ds 0"

subsection \<open>Arrays\<close>

text \<open>
  \<open>Array.prototype.slice(start, end)\<close> on integers: a negative index counts from the end,
  and both indices are clipped to the array.
\<close>

definition slice :: "'a list \<Rightarrow> int \<Rightarrow> int \<Rightarrow> 'a list" where
  "slice xs start end' =
     (let len = int (length xs);
          from = (if start < 0 then max (len + start) 0 else min start len);
          to = (if end' < 0 then max (len + end') 0 else min end' len)
      in take (nat (to - from)) (drop (nat from) xs))"

subsection \<open>Numbers\<close>

text \<open>
  The progress percentage is computed in double precision:
  \<open>Math.min(100, Math.round((completed / totalSentences) * 100))\<close>. A \<open>number\<close> is
  \<open>NaN\<close>, positive infinity or a finite value (the operands here are never negative).
  \<open>fl\<close> rounds a rational to the nearest binary64 value, ties to even, with a 53-bit
  significand. Overflow and subnormal values are left out: quotients of array lengths and
  their products with 100 are far from both. Array lengths themselves are below \<open>2 ^ 32\<close>
  and therefore exact.
\<close>

datatype number = NaN | Infinity | Finite rat

definition pow2 :: "int \<Rightarrow> rat" where
  "pow2 k = (if 0 \<le> k then 2 ^ nat k else 1 / 2 ^ nat (- k))"

text \<open>The binary exponent \<open>\<lfloor>log\<^sub>2 x\<rfloor>\<close> of a positive rational.\<close>

definition ilog2 :: "rat \<Rightarrow> int" where
  "ilog2 x = (let (p, q) = quotient_of x; d = bitlen p - bitlen q
              in if pow2 d \<le> x then d else d - 1)"

definition roundTiesToEven :: "rat \<Rightarrow> int" where
  "roundTiesToEven s =
     (let n = \<lfloor>s\<rfloor>; f = s - of_int n
      in if f < 1 / 2 then n else if 1 / 2 < f then n + 1 else if even n then n else n + 1)"

definition fl :: "rat \<Rightarrow> rat" where
  "fl x = (if x = 0 then 0
           else let u = pow2 (ilog2 \<bar>x\<bar> - 52)
                in sgn x * of_int (roundTiesToEven (\<bar>x\<bar> / u)) * u)"

text \<open>\<open>a / b\<close> for two array lengths.\<close>

definition divideLengths :: "nat \<Rightarrow> nat \<Rightarrow> number" where
  "divideLengths a b =
     (if b = 0 then (if a = 0 then NaN else Infinity) else Finite (fl (of_nat a / of_nat b)))"

text \<open>\<open>x * y\<close> for a positive finite \<open>y\<close>.\<close>

fun times :: "number \<Rightarrow> rat \<Rightarrow> number" where
  "times NaN y = NaN"
| "times Infinity y = Infinity"
| "times (Finite x) y = Finite (fl (x * y))"

text \<open>\<open>Math.round\<close>: the nearest integer, a tie going towards \<open>+\<infinity>\<close>.\<close>

fun Math_round :: "number \<Rightarrow> number" where
  "Math_round NaN = NaN"
| "Math_round Infinity = Infinity"
| "Math_round (Finite x) = Finite (of_int \<lfloor>x + 1 / 2\<rfloor>)"

fun Math_min :: "rat \<Rightarrow> number \<Rightarrow> number" where
  "Math_min a NaN = NaN"
| "Math_min a Infinity = Finite a"
| "Math_min a (Finite x) = Finite (min a x)"


section \<open>The translation cache (src/utils/db.ts)\<close>

subsection \<open>generateSentenceHash\<close>

text \<open>
  One round of the loop body: \<open>hash = ((hash << 5) - hash) + char; hash = hash & hash\<close>.
  The shift yields a 32-bit integer, the subtraction and the addition are exact on numbers
  of this size, and \<open>hash & hash\<close> reduces the sum to a signed 32-bit integer again: the
  round is arithmetic modulo \<open>2 ^ 32\<close>, read as two's complement.
\<close>

definition hashStep :: "32 word \<Rightarrow> 16 word \<Rightarrow> 32 word" where
  "hashStep hash char = (push_bit 5 hash - hash) + ucast char"

definition generateSentenceHash :: "jsstring \<Rightarrow> jsstring" where
  "generateSentenceHash text =
     toStringRadix 36 \<bar>sint (fold (\<lambda>char hash. hashStep hash char) text 0)\<bar>"

subsection \<open>The table\<close>

record TranslationRecord =
  id' :: nat
  bookId :: jsstring
  sentenceHash :: jsstring
  originalText :: jsstring
  translatedText :: jsstring
  sourceLanguage :: "jsstring option"
  targetLanguage :: "jsstring option"
  createdAt :: nat
  updatedAt :: nat

text \<open>
  The \<open>translations\<close> table: its rows in primary-key order, and the key generator of the
  auto-incremented \<open>id\<close>.
\<close>

record database =
  rows :: "TranslationRecord list"
  nextId :: nat

text \<open>
  Every exported function wraps its body in \<open>try\<close>/\<open>catch\<close>. The flag \<open>ok\<close> says whether the
  storage layer answers (\<open>True\<close>) or throws (\<open>False\<close>).
\<close>

text \<open>
  \<open>getBatchTranslations\<close>: the rows of \<open>bookId\<close> whose stored hash is among the hashes of
  the queried sentences, written into a \<open>Map\<close> from \<open>originalText\<close> to \<open>translatedText\<close>
  (a later row overwrites an earlier one with the same original text).
\<close>

definition getBatchTranslations ::
  "bool \<Rightarrow> database \<Rightarrow> jsstring \<Rightarrow> jsstring list \<Rightarrow> (jsstring \<rightharpoonup> jsstring)" where
  "getBatchTranslations ok db bId sentences =
     (if \<not> ok then Map.empty
      else
        let hashes = map generateSentenceHash sentences;
            records = filter (\<lambda>record. bookId record = bId \<and> sentenceHash record \<in> set hashes)
                        (rows db)
        in fold (\<lambda>record translationMap.
                   translationMap(originalText record \<mapsto> translatedText record))
             records Map.empty)"

text \<open>
  \<open>saveTranslation\<close>: look for the first row with the pair \<open>(bookId, sentenceHash)\<close>; update
  it when it exists, insert a new row otherwise. A failure of the storage layer is caught
  and leaves the table as it was; the function then returns \<open>undefined\<close>.
\<close>

definition saveTranslation ::
  "bool \<Rightarrow> nat \<Rightarrow> database \<Rightarrow> jsstring \<Rightarrow> jsstring \<Rightarrow> jsstring \<Rightarrow> jsstring option \<Rightarrow>
   jsstring option \<Rightarrow> database \<times> nat option" where
  "saveTranslation ok now db bId origText transText srcLang tgtLang =
     (if \<not> ok then (db, None)
      else
        let sHash = generateSentenceHash origText
        in case find (\<lambda>record. bookId record = bId \<and> sentenceHash record = sHash) (rows db) of
             Some existing \<Rightarrow>
               (db\<lparr>rows := map (\<lambda>record.
                               if id' record = id' existing
                               then record\<lparr>translatedText := transText, sourceLanguage := srcLang,
                                           targetLanguage := tgtLang, updatedAt := now\<rparr>
                               else record) (rows db)\<rparr>,
                Some (id' existing))
           | None \<Rightarrow>
               (db\<lparr>rows := rows db @
                            [\<lparr>id' = nextId db, bookId = bId, sentenceHash = sHash,
                              originalText = origText, translatedText = transText,
                              sourceLanguage = srcLang, targetLanguage = tgtLang,
                              createdAt = now, updatedAt = now\<rparr>],
                   nextId := Suc (nextId db)\<rparr>,
                Some (nextId db)))"

section \<open>The translation task service (src/services/TranslationTaskService.ts)\<close>

subsection \<open>Data\<close>

text \<open>
  A sentence of the work set. The field \<open>text\<close> of the source is \<open>text'\<close> here, and the
  field \<open>bookId\<close> of a task is \<open>bookId'\<close> (the cache row has a field of that name too).
\<close>

record Sentence =
  text' :: jsstring
  chapterIndex :: nat
  sentenceIndex :: nat

datatype taskStatus = Running | Paused | Completed | Error

record TranslationTask =
  bookId' :: jsstring
  bookTitle :: jsstring
  sentences :: "Sentence list"
  batchSize :: int
  totalSentences :: nat
  completedSentences :: nat
  progress :: number
  status :: taskStatus
  startTime :: nat
  endTime :: "nat option"
  error :: "jsstring option"

datatype role = System | User

record ChatMessage =
  role :: role
  content :: jsstring

text \<open>The toasts of \<open>antd\<close>'s \<open>message\<close>, one constructor for each call in the service.\<close>

datatype toast =
    ErrorConfigureModel
  | SuccessAllCached
  | InfoStarted jsstring nat nat
  | SuccessCompleted jsstring
  | ErrorTaskFailed jsstring
  | InfoPaused
  | InfoResumed
  | InfoStopped

text \<open>
  What the service asks of its surroundings: the answer of the language model to the
  \<open>n\<close>-th request (\<open>Inl\<close> when \<open>client.completions\<close> throws, with the error's message),
  whether the \<open>n\<close>-th access to the storage layer succeeds, and the constant
  \<open>INPUT_PROMPT.TRANSLATION_PROMPT\<close>, which is defined outside the service.
\<close>

record env =
  completions :: "nat \<Rightarrow> ChatMessage list \<Rightarrow> jsstring + jsstring"
  storageOk :: "nat \<Rightarrow> bool"
  TRANSLATION_PROMPT :: jsstring

text \<open>
  An activation of \<open>executeTranslation\<close>, suspended at one of its \<open>await\<close>s: in
  \<open>translateBatch\<close> for the current window, in the single request for one sentence of the
  window (with the sentences of the window still to come), or in the delay between two
  windows. The fields are the local variables of the function.
\<close>

datatype pc = AwaitBatch | AwaitSingle Sentence "Sentence list" | AwaitDelay | Done

record loop =
  lBookId :: jsstring
  lSentences :: "Sentence list"
  lBatchSize :: int
  lTotalSentences :: nat
  lCompleted :: nat
  lTranslatedInThisSession :: nat
  lI :: int
  lBatch :: "Sentence list"
  lRequest :: nat
  lPc :: pc

text \<open>
  The singleton service and what it acts on. \<open>abortController\<close> is \<open>None\<close> for \<open>null\<close> and
  otherwise holds \<open>signal.aborted\<close>. \<open>notified\<close> is the sequence of values handed to the
  listeners by \<open>notify\<close>, \<open>toasts\<close> the messages shown, \<open>requests\<close> the calls of
  \<open>client.completions\<close> in the order they were issued, \<open>dbOps\<close> the number of accesses to
  the storage layer so far, \<open>clock\<close> the value of \<open>Date.now()\<close>, and \<open>loops\<close> the activations
  of \<open>executeTranslation\<close> in the order they were launched.
\<close>

record world =
  currentTask :: "TranslationTask option"
  abortController :: "bool option"
  notified :: "TranslationTask option list"
  toasts :: "toast list"
  cache :: database
  chatModel :: "jsstring option"
  requests :: "ChatMessage list list"
  dbOps :: nat
  clock :: nat
  loops :: "loop list"

subsection \<open>Progress\<close>

text \<open>\<open>Math.min(100, Math.round((completed / totalSentences) * 100))\<close>, as it stands in
  \<open>startTranslation\<close> and twice in \<open>executeTranslation\<close>.\<close>

definition calcProgress :: "nat \<Rightarrow> nat \<Rightarrow> number" where
  "calcProgress completed totalSentences' =
     Math_min 100 (Math_round (times (divideLengths completed totalSentences') 100))"


subsection \<open>translateBatch\<close>

text \<open>The tail of the system prompt of a batch request, a literal of the source.\<close>

definition batchInstructions :: jsstring where
  "batchInstructions =
     [0xa, 0x8bf7, 0x7ffb, 0x8bd1, 0x4ee5, 0x4e0b, 0x591a, 0x4e2a, 0x53e5, 0x5b50, 0xff0c,
      0x6bcf, 0x4e2a, 0x53e5, 0x5b50, 0x72ec, 0x7acb, 0x7ffb, 0x8bd1, 0xff0c, 0x7528, 0x76f8,
      0x540c, 0x7684, 0x7f16, 0x53f7, 0x6807, 0x8bb0, 0x8fd4, 0x56de, 0x3002, 0xa, 0x683c,
      0x5f0f, 0x8981, 0x6c42, 0xff1a, 0xa, 0x5b, 0x31, 0x5d, 0x20, 0x7ffb, 0x8bd1, 0x7684,
      0x7b2c, 0x4e00, 0x53e5, 0xa, 0x5b, 0x32, 0x5d, 0x20, 0x7ffb, 0x8bd1, 0x7684, 0x7b2c,
      0x4e8c, 0x53e5, 0xa, 0x2e, 0x2e, 0x2e, 0x4ee5, 0x6b64, 0x7c7b, 0x63a8]"

definition batchMessages :: "env \<Rightarrow> Sentence list \<Rightarrow> ChatMessage list" where
  "batchMessages e sents =
     (let batchText = joinWith [0x0A]
            (map (\<lambda>(i, s). js ''['' @ toStringRadix 10 (int i + 1) @ js ''] '' @ text' s)
               (enumerate 0 sents))
      in [\<lparr>role = System, content = TRANSLATION_PROMPT e @ batchInstructions\<rparr>,
          \<lparr>role = User, content = batchText\<rparr>])"

definition singleMessages :: "env \<Rightarrow> Sentence \<Rightarrow> ChatMessage list" where
  "singleMessages e sentence =
     [\<lparr>role = System, content = TRANSLATION_PROMPT e\<rparr>,
      \<lparr>role = User, content = text' sentence\<rparr>]"

text \<open>
  \<open>line.match(/^\[(\d+)\]\s*(.+)/)\<close>, returning the two groups. After the closing bracket
  \<open>\s*\<close> takes all white space; what follows is not white space, hence no line terminator,
  and the second group runs up to the next line terminator. When only white space follows
  the bracket, the expression backtracks to the last unit of it that is no line
  terminator, and the second group is that unit alone.
\<close>

definition matchLine :: "jsstring \<Rightarrow> (jsstring \<times> jsstring) option" where
  "matchLine line =
     (case line of
        [] \<Rightarrow> None
      | c # rest \<Rightarrow>
          if c \<noteq> 0x5B then None
          else
            let ds = takeWhile isDigit rest; r1 = dropWhile isDigit rest
            in if ds = [] then None
               else (case r1 of
                       [] \<Rightarrow> None
                     | c2 # r2 \<Rightarrow>
                         if c2 \<noteq> 0x5D then None
                         else
                           let ws = takeWhile isWhiteSpace r2; r3 = dropWhile isWhiteSpace r2
                           in if r3 \<noteq> [] then Some (ds, takeWhile (\<lambda>u. \<not> isLineTerminator u) r3)
                              else (case dropWhile isLineTerminator (rev ws) of
                                      [] \<Rightarrow> None
                                    | c3 # _ \<Rightarrow> Some (ds, [c3]))))"

text \<open>
  The answer of a batch request, parsed: the lines with a tag that is an index into the
  window give \<open>translationMap\<close>; the sentences whose index has a non-empty entry give the
  returned map from text to translation. An empty answer gives an empty map.
\<close>

definition parseBatchResponse :: "Sentence list \<Rightarrow> jsstring \<Rightarrow> (jsstring \<rightharpoonup> jsstring)" where
  "parseBatchResponse sents response =
     (if response = [] then Map.empty
      else
        let translationMap =
              fold (\<lambda>line m.
                      case matchLine line of
                        None \<Rightarrow> m
                      | Some (g1, g2) \<Rightarrow>
                          let index = int (parseInt g1) - 1
                          in if 0 \<le> index \<and> index < int (length sents)
                             then m(nat index \<mapsto> trim g2) else m)
                (splitOn 0x0A response) Map.empty
        in fold (\<lambda>(index, sentence) tr.
                   case translationMap index of
                     None \<Rightarrow> tr
                   | Some translation \<Rightarrow>
                       if translation \<noteq> [] then tr(text' sentence \<mapsto> translation) else tr)
             (enumerate 0 sents) Map.empty)"

subsection \<open>The synchronous operations\<close>

definition notify :: "world \<Rightarrow> world" where
  "notify w = w\<lparr>notified := notified w @ [currentTask w]\<rparr>"

definition message :: "toast \<Rightarrow> world \<Rightarrow> world" where
  "message m w = w\<lparr>toasts := toasts w @ [m]\<rparr>"

text \<open>\<open>this.abortController?.abort()\<close>\<close>

definition abort :: "world \<Rightarrow> world" where
  "abort w = w\<lparr>abortController := map_option (\<lambda>_. True) (abortController w)\<rparr>"

definition getCurrentTask :: "world \<Rightarrow> TranslationTask option" where
  "getCurrentTask w = currentTask w"

definition pauseTranslation :: "world \<Rightarrow> world" where
  "pauseTranslation w =
     (case currentTask w of
        None \<Rightarrow> w
      | Some t \<Rightarrow>
          if status t = Running
          then message InfoPaused (notify (abort (w\<lparr>currentTask := Some (t\<lparr>status := Paused\<rparr>)\<rparr>)))
          else w)"

text \<open>
  \<open>stopTranslation\<close> marks the task paused and stamps its end time, and then drops it: the
  two assignments are to an object that is no longer the current task.
\<close>

definition stopTranslation :: "world \<Rightarrow> world" where
  "stopTranslation w =
     (case currentTask w of
        None \<Rightarrow> w
      | Some t \<Rightarrow> message InfoStopped (notify ((abort w)\<lparr>currentTask := None\<rparr>)))"

definition clearCompletedTask :: "world \<Rightarrow> world" where
  "clearCompletedTask w =
     (case currentTask w of
        None \<Rightarrow> w
      | Some t \<Rightarrow> if status t = Completed then notify (w\<lparr>currentTask := None\<rparr>) else w)"

definition saveTranslationToDB :: "env \<Rightarrow> jsstring \<Rightarrow> jsstring \<Rightarrow> jsstring \<Rightarrow> world \<Rightarrow> world" where
  "saveTranslationToDB e bId origText translation w =
     w\<lparr>cache :=
         fst (saveTranslation (storageOk e (dbOps w)) (clock w) (cache w)
                bId origText translation None None),
       dbOps := Suc (dbOps w)\<rparr>"

subsection \<open>executeTranslation\<close>

text \<open>
  The test at the head of each window and of each sentence of the fallback:
  \<open>this.abortController?.signal.aborted || this.currentTask.status !== 'running'\<close>. It is
  \<open>None\<close> when the second operand is evaluated on \<open>null\<close> and throws a \<open>TypeError\<close>.
\<close>

definition cancelled :: "world \<Rightarrow> bool option" where
  "cancelled w =
     (if abortController w = Some True then Some True
      else (case currentTask w of None \<Rightarrow> None | Some t \<Rightarrow> Some (status t \<noteq> Running)))"

definition nullTaskError :: jsstring where
  "nullTaskError = js ''Cannot read properties of null''"

text \<open>The \<open>catch\<close> around the whole loop.\<close>

definition outerCatch :: "jsstring \<Rightarrow> world \<Rightarrow> world" where
  "outerCatch msg w =
     (case currentTask w of
        None \<Rightarrow> w
      | Some t \<Rightarrow>
          notify (message (ErrorTaskFailed msg)
            (w\<lparr>currentTask := Some (t\<lparr>status := Error, endTime := Some (clock w),
                                        error := Some msg\<rparr>)\<rparr>)))"

text \<open>After the last window, or after a \<open>break\<close>.\<close>

definition afterLoop :: "loop \<times> world \<Rightarrow> loop \<times> world" where
  "afterLoop = (\<lambda>(l, w).
     (l\<lparr>lPc := Done\<rparr>,
      case currentTask w of
        None \<Rightarrow> outerCatch nullTaskError w
      | Some t \<Rightarrow>
          if status t = Running
          then notify (message (SuccessCompleted (bookTitle t))
                 (w\<lparr>currentTask := Some (t\<lparr>status := Completed, endTime := Some (clock w),
                                             progress := Finite 100,
                                             completedSentences := lTotalSentences l\<rparr>)\<rparr>))
          else w))"

text \<open>
  The head of the \<open>for\<close> loop over the windows, up to the \<open>await\<close> inside \<open>translateBatch\<close>,
  where the request for the window has been issued.
\<close>

definition forLoop :: "env \<Rightarrow> loop \<times> world \<Rightarrow> loop \<times> world" where
  "forLoop e = (\<lambda>(l, w).
     if lI l < int (length (lSentences l)) then
       (case cancelled w of
          None \<Rightarrow> (l\<lparr>lPc := Done\<rparr>, outerCatch nullTaskError w)
        | Some True \<Rightarrow> afterLoop (l, w)
        | Some False \<Rightarrow>
            let batch = slice (lSentences l) (lI l)
                          (min (lI l + lBatchSize l) (int (length (lSentences l))))
            in (l\<lparr>lBatch := batch, lRequest := length (requests w), lPc := AwaitBatch\<rparr>,
                w\<lparr>requests := requests w @ [batchMessages e batch]\<rparr>))
     else afterLoop (l, w))"

text \<open>
  The four statements that end a window in both branches: the two counters of the loop go
  up by the size of the window, and the task gets the new count and percentage
  (\<open>None\<close>: the task is \<open>null\<close> and the assignment throws).
\<close>

definition advance :: "loop \<Rightarrow> loop" where
  "advance l =
     l\<lparr>lTranslatedInThisSession := lTranslatedInThisSession l + length (lBatch l),
       lCompleted := lCompleted l + length (lBatch l)\<rparr>"

definition publish :: "loop \<Rightarrow> world \<Rightarrow> world option" where
  "publish l w =
     (case currentTask w of
        None \<Rightarrow> None
      | Some t \<Rightarrow>
          Some (notify (w\<lparr>currentTask :=
                  Some (t\<lparr>completedSentences := lCompleted l,
                          progress := calcProgress (lCompleted l) (lTotalSentences l)\<rparr>)\<rparr>)))"

text \<open>The end of the fallback branch, inside the \<open>catch\<close> of the window.\<close>

definition finishFallback :: "loop \<times> world \<Rightarrow> loop \<times> world" where
  "finishFallback = (\<lambda>(l, w).
     case publish (advance l) w of
       None \<Rightarrow> ((advance l)\<lparr>lPc := Done\<rparr>, outerCatch nullTaskError w)
     | Some w' \<Rightarrow> ((advance l)\<lparr>lPc := AwaitDelay\<rparr>, w'))"

text \<open>
  The fallback loop over the sentences of the window that are still to come, up to the
  next \<open>await\<close>.
\<close>

definition fallback :: "env \<Rightarrow> Sentence list \<Rightarrow> loop \<times> world \<Rightarrow> loop \<times> world" where
  "fallback e rest = (\<lambda>(l, w).
     case rest of
       [] \<Rightarrow> finishFallback (l, w)
     | sentence # rest' \<Rightarrow>
         (case cancelled w of
            None \<Rightarrow> (l\<lparr>lPc := Done\<rparr>, outerCatch nullTaskError w)
          | Some True \<Rightarrow> finishFallback (l, w)
          | Some False \<Rightarrow>
              (l\<lparr>lRequest := length (requests w), lPc := AwaitSingle sentence rest'\<rparr>,
               w\<lparr>requests := requests w @ [singleMessages e sentence]\<rparr>)))"

text \<open>The loop that stores the translations of a batch answer.\<close>

definition saveBatch ::
  "env \<Rightarrow> jsstring \<Rightarrow> (jsstring \<rightharpoonup> jsstring) \<Rightarrow> Sentence list \<Rightarrow> world \<Rightarrow> world" where
  "saveBatch e bId batchTranslations batch w =
     fold (\<lambda>sentence w'.
             case batchTranslations (text' sentence) of
               None \<Rightarrow> w'
             | Some translation \<Rightarrow>
                 if translation \<noteq> [] \<and> translation \<noteq> text' sentence
                 then saveTranslationToDB e bId (text' sentence) translation w'
                 else w')
       batch w"

text \<open>
  An activation goes on from its \<open>await\<close> to the next one. The storage operations in
  between are taken as one step with it.
\<close>

definition wake :: "env \<Rightarrow> loop \<times> world \<Rightarrow> loop \<times> world" where
  "wake e = (\<lambda>(l, w).
     case lPc l of
       AwaitBatch \<Rightarrow>
         (case completions e (lRequest l) (batchMessages e (lBatch l)) of
            Inl err \<Rightarrow> fallback e (lBatch l) (l, w)
          | Inr response \<Rightarrow>
              let w1 = saveBatch e (lBookId l) (parseBatchResponse (lBatch l) response) (lBatch l) w
              in (case publish (advance l) w1 of
                    None \<Rightarrow> fallback e (lBatch l) (advance l, w1)
                  | Some w2 \<Rightarrow> ((advance l)\<lparr>lPc := AwaitDelay\<rparr>, w2)))
     | AwaitSingle sentence rest \<Rightarrow>
         (case completions e (lRequest l) (singleMessages e sentence) of
            Inl err \<Rightarrow> fallback e rest (l, w)
          | Inr translation \<Rightarrow>
              fallback e rest
                (l, if translation \<noteq> [] \<and> translation \<noteq> text' sentence
                    then saveTranslationToDB e (lBookId l) (text' sentence) translation w
                    else w))
     | AwaitDelay \<Rightarrow> forLoop e (l\<lparr>lI := lI l + lBatchSize l\<rparr>, w)
     | Done \<Rightarrow> (l, w))"

text \<open>
  \<open>executeTranslation\<close> from its call to its first \<open>await\<close>: the locals are read from the
  current task, and the first window is requested.
\<close>

definition executeTranslation :: "env \<Rightarrow> world \<Rightarrow> world" where
  "executeTranslation e w =
     (case currentTask w of
        None \<Rightarrow> w
      | Some t \<Rightarrow>
          if status t \<noteq> Running then w
          else
            let l = \<lparr>lBookId = bookId' t, lSentences = sentences t, lBatchSize = batchSize t,
                     lTotalSentences = totalSentences t, lCompleted = completedSentences t,
                     lTranslatedInThisSession = 0, lI = 0, lBatch = [], lRequest = 0,
                     lPc = Done\<rparr>;
                (l', w') = forLoop e (l, w)
            in w'\<lparr>loops := loops w' @ [l']\<rparr>)"

subsection \<open>resumeTranslation and startTranslation\<close>

definition resumeTranslation :: "env \<Rightarrow> world \<Rightarrow> world" where
  "resumeTranslation e w =
     (case currentTask w of
        None \<Rightarrow> w
      | Some t \<Rightarrow>
          if status t = Paused then
            let initialCached = int (totalSentences t) - int (length (sentences t));
                translatedFromNeedList = int (completedSentences t) - initialCached;
                remainingSentences =
                  slice (sentences t) translatedFromNeedList (int (length (sentences t)))
            in executeTranslation e
                 (message InfoResumed
                    (notify (w\<lparr>currentTask :=
                                 Some (t\<lparr>sentences := remainingSentences, status := Running\<rparr>),
                               abortController := Some False\<rparr>)))
          else w)"

text \<open>
  \<open>startTranslation\<close>. The query of the cache is taken as one step with the rest of the
  function.
\<close>

definition startTranslation ::
  "env \<Rightarrow> jsstring \<Rightarrow> jsstring \<Rightarrow> Sentence list \<Rightarrow> int \<Rightarrow> world \<Rightarrow> world" where
  "startTranslation e bId title allSentences bSize w =
     (let w1 = (case currentTask w of
                  None \<Rightarrow> w
                | Some t \<Rightarrow> if status t = Running then stopTranslation w else w)
      in case chatModel w1 of
           None \<Rightarrow> message ErrorConfigureModel w1
         | Some model \<Rightarrow>
             let texts = map text' allSentences;
                 cachedTranslations =
                   getBatchTranslations (storageOk e (dbOps w1)) (cache w1) bId texts;
                 w2 = w1\<lparr>dbOps := Suc (dbOps w1)\<rparr>;
                 needTranslation =
                   filter (\<lambda>s. cachedTranslations (text' s) = None) allSentences
             in if length needTranslation = 0 then message SuccessAllCached w2
                else
                  let alreadyCached = length allSentences - length needTranslation;
                      initialProgress = calcProgress alreadyCached (length allSentences);
                      task = \<lparr>bookId' = bId, bookTitle = title, sentences = needTranslation,
                              batchSize = bSize, totalSentences = length allSentences,
                              completedSentences = alreadyCached, progress = initialProgress,
                              status = Running, startTime = clock w2, endTime = None,
                              error = None\<rparr>
                  in executeTranslation e
                       (message (InfoStarted title (length needTranslation) alreadyCached)
                          (notify (w2\<lparr>currentTask := Some task,
                                      abortController := Some False\<rparr>))))"

subsection \<open>Runs\<close>

text \<open>
  What can happen to the service: a call of one of its operations, a change of the
  configured model, time passing, and an activation of \<open>executeTranslation\<close> going on from
  its \<open>await\<close> (the answer to its request has arrived, or its delay is over). Each of them
  runs to its end before the next begins.
\<close>

datatype event =
    StartTranslation jsstring jsstring "Sentence list" int
  | PauseTranslation
  | ResumeTranslation
  | StopTranslation
  | ClearCompletedTask
  | SetChatModel "jsstring option"
  | Elapse nat
  | Wake nat

fun step :: "env \<Rightarrow> event \<Rightarrow> world \<Rightarrow> world" where
  "step e (StartTranslation bId title allSentences bSize) w =
     startTranslation e bId title allSentences bSize w"
| "step e PauseTranslation w = pauseTranslation w"
| "step e ResumeTranslation w = resumeTranslation e w"
| "step e StopTranslation w = stopTranslation w"
| "step e ClearCompletedTask w = clearCompletedTask w"
| "step e (SetChatModel m) w = w\<lparr>chatModel := m\<rparr>"
| "step e (Elapse d) w = w\<lparr>clock := clock w + d\<rparr>"
| "step e (Wake k) w =
     (if k < length (loops w)
      then (let (l', w') = wake e (loops w ! k, w) in w'\<lparr>loops := (loops w')[k := l']\<rparr>)
      else w)"

definition run :: "env \<Rightarrow> event list \<Rightarrow> world \<Rightarrow> world" where
  "run e events w = fold (step e) events w"

text \<open>The service as the module creates it, with a model configured or not.\<close>

definition initial :: "jsstring option \<Rightarrow> database \<Rightarrow> world" where
  "initial model table =
     \<lparr>currentTask = None, abortController = None, notified = [], toasts = [],
      cache = table, chatModel = model, requests = [], dbOps = 0, clock = 0,
      loops = []\<rparr>"

section \<open>Example data\<close>

text \<open>
  The texts \<open>Aa\<close> and \<open>BB\<close> have the same hash \<open>1mo\<close>. \<open>collisionAcross\<close> holds \<open>Aa\<close> for the
  owner \<open>bookX\<close> and \<open>BB\<close> for the owner \<open>bookY\<close>; \<open>collisionWithin\<close> holds only \<open>BB\<close>, for
  \<open>bookX\<close>.
\<close>

definition mkRecord :: "nat \<Rightarrow> string \<Rightarrow> string \<Rightarrow> string \<Rightarrow> TranslationRecord" where
  "mkRecord n owner orig translated =
     \<lparr>id' = n, bookId = js owner, sentenceHash = generateSentenceHash (js orig),
      originalText = js orig, translatedText = js translated,
      sourceLanguage = None, targetLanguage = None, createdAt = 0, updatedAt = 0\<rparr>"

definition collisionAcross :: database where
  "collisionAcross =
     \<lparr>rows = [mkRecord 1 ''bookX'' ''Aa'' ''TransAa'', mkRecord 2 ''bookY'' ''BB'' ''TransBB''],
      nextId = 3\<rparr>"

definition collisionWithin :: database where
  "collisionWithin = \<lparr>rows = [mkRecord 1 ''bookX'' ''BB'' ''TransBB''], nextId = 2\<rparr>"

text \<open>
  The work set of the scenarios, a language model that answers every request with two
  tagged lines, and an empty cache.
\<close>

definition sentenceOf :: "string \<Rightarrow> nat \<Rightarrow> Sentence" where
  "sentenceOf s n = \<lparr>text' = js s, chapterIndex = 0, sentenceIndex = n\<rparr>"

definition unitsABCD :: "Sentence list" where
  "unitsABCD = [sentenceOf ''A.'' 0, sentenceOf ''B.'' 1, sentenceOf ''C.'' 2, sentenceOf ''D.'' 3]"

definition answering :: env where
  "answering =
     \<lparr>completions = (\<lambda>n msgs. Inr (js ''[1] X'' @ [0x0A] @ js ''[2] Y'')),
      storageOk = (\<lambda>n. True),
      TRANSLATION_PROMPT = js ''Translate.''\<rparr>"

definition emptyCache :: database where
  "emptyCache = \<lparr>rows = [], nextId = 1\<rparr>"

definition cacheWithA :: database where
  "cacheWithA = \<lparr>rows = [mkRecord 1 ''bookX'' ''A.'' ''TransA''], nextId = 2\<rparr>"

text \<open>A service with a running task for \<open>bookX\<close>, seven time units after its start.\<close>

definition runningWorld :: world where
  "runningWorld =
     run answering [StartTranslation (js ''bookX'') (js ''X'') unitsABCD 2, Elapse 7]
       (initial (Some (js ''model'')) emptyCache)"

text \<open>The same service after the configured model has been removed.\<close>

definition runningWithoutModel :: world where
  "runningWithoutModel = step answering (SetChatModel None) runningWorld"

text \<open>A service with a paused task for \<open>bookY\<close> and a cache that holds \<open>A.\<close> for \<open>bookX\<close>.\<close>

definition pausedWorld :: world where
  "pausedWorld =
     run answering [StartTranslation (js ''bookY'') (js ''Y'') unitsABCD 2, PauseTranslation]
       (initial (Some (js ''model'')) cacheWithA)"

text \<open>An idle service with a model configured and that cache.\<close>

definition idleWithA :: world where
  "idleWithA = initial (Some (js ''model'')) cacheWithA"







text \<open>
  Two runs in which a loop outlives its cancellation: a task is stopped and another book
  is started while the first batch request is still under way; a task is paused and
  resumed while the first batch request is still under way.
\<close>

definition unitE :: "Sentence list" where
  "unitE = [sentenceOf ''E.'' 0]"

definition staleAfterRestart :: "event list" where
  "staleAfterRestart =
     [StartTranslation (js ''bookA'') (js ''A'') unitsABCD 3, StopTranslation,
      StartTranslation (js ''bookB'') (js ''B'') unitE 3, Wake 0, Wake 1]"

definition staleAfterResume :: "event list" where
  "staleAfterResume =
     [StartTranslation (js ''bookA'') (js ''A'') unitsABCD 3, PauseTranslation, ResumeTranslation,
      Wake 0, Wake 0, Wake 0, Wake 1]"

definition fresh :: world where
  "fresh = initial (Some (js ''model'')) emptyCache"

section \<open>Auxiliary notions\<close>

text \<open>The first statement of \<open>startTranslation\<close>: a running task is stopped.\<close>

definition stopIfRunning :: "world \<Rightarrow> world" where
  "stopIfRunning w =
     (case currentTask w of
        None \<Rightarrow> w
      | Some t \<Rightarrow> if status t = Running then stopTranslation w else w)"


text \<open>The world after the answer to a single request, before the fallback goes on.\<close>

definition afterSingle :: "env \<Rightarrow> loop \<Rightarrow> Sentence \<Rightarrow> world \<Rightarrow> world" where
  "afterSingle e l s w =
     (case completions e (lRequest l) (singleMessages e s) of
        Inl err \<Rightarrow> w
      | Inr translation \<Rightarrow>
          if translation \<noteq> [] \<and> translation \<noteq> text' s
          then saveTranslationToDB e (lBookId l) (text' s) translation w else w)"

text \<open>
  The three lines of \<open>resumeTranslation\<close> that compute the sentences still to do, as a
  function of the total, the count and the pending list.
\<close>

definition remainingSentences :: "nat \<Rightarrow> nat \<Rightarrow> Sentence list \<Rightarrow> Sentence list" where
  "remainingSentences totalSentences' completed pending =
     slice pending (int completed - (int totalSentences' - int (length pending)))
       (int (length pending))"

text \<open>What an observer reads off a task: count, total, percentage and status.\<close>

definition snapshot :: "world \<Rightarrow> (nat \<times> nat \<times> number \<times> taskStatus) option" where
  "snapshot w =
     map_option (\<lambda>t. (completedSentences t, totalSentences t, progress t, status t))
       (currentTask w)"

section \<open>Properties of the cache\<close>

lemma hash_Aa: "generateSentenceHash (js ''Aa'') = js ''1mo''"
  by (simp add: generateSentenceHash_def js_def hashStep_def toStringRadix.simps digitChar_def)

lemma hash_BB: "generateSentenceHash (js ''BB'') = js ''1mo''"
  by (simp add: generateSentenceHash_def js_def hashStep_def toStringRadix.simps digitChar_def)

lemma js_Aa_neq_BB: "js ''Aa'' \<noteq> js ''BB''"
  by (simp add: js_def)

lemma fold_set_Some:
  "fold (\<lambda>record m. m(f record \<mapsto> g record)) rs m0 k = Some v \<Longrightarrow>
   (\<exists>r \<in> set rs. f r = k \<and> g r = v) \<or> m0 k = Some v"
proof (induction rs arbitrary: m0)
  case Nil
  then show ?case by simp
next
  case (Cons r rs)
  from Cons.prems
  have "fold (\<lambda>record m. m(f record \<mapsto> g record)) rs (m0(f r \<mapsto> g r)) k = Some v"
    by (simp only: fold.simps o_apply)
  from Cons.IH [OF this] show ?case
    by (auto split: if_splits)
qed

lemma fold_set_dom:
  "dom (fold (\<lambda>record m. m(f record \<mapsto> g record)) rs m0) = f ` set rs \<union> dom m0"
  by (induction rs arbitrary: m0) auto

lemma getBatchTranslations_from_row:
  assumes "getBatchTranslations ok db owner texts k = Some v"
  shows "\<exists>r \<in> set (rows db). bookId r = owner \<and> originalText r = k \<and> translatedText r = v \<and>
           sentenceHash r \<in> generateSentenceHash ` set texts"
proof -
  from assms have ok by (auto simp: getBatchTranslations_def split: if_splits)
  with assms have "fold (\<lambda>record m. m(originalText record \<mapsto> translatedText record))
      (filter (\<lambda>record. bookId record = owner \<and>
                 sentenceHash record \<in> set (map generateSentenceHash texts)) (rows db))
      Map.empty k = Some v"
    by (simp add: getBatchTranslations_def)
  from fold_set_Some [OF this] show ?thesis by auto
qed

lemma getBatchTranslations_dom:
  "dom (getBatchTranslations ok db owner texts) =
     (if ok then originalText ` {r \<in> set (rows db). bookId r = owner \<and>
                   sentenceHash r \<in> generateSentenceHash ` set texts}
      else {})"
  by (auto simp: getBatchTranslations_def fold_set_dom)

lemma getBatchTranslations_restrict:
  "getBatchTranslations ok (db\<lparr>rows := filter (\<lambda>r. bookId r = owner) (rows db)\<rparr>) owner texts =
   getBatchTranslations ok db owner texts"
proof -
  have "filter (\<lambda>record. bookId record = owner \<and> P record) (filter (\<lambda>r. bookId r = owner) rs) =
        filter (\<lambda>record. bookId record = owner \<and> P record) rs" for P rs
    by (induction rs) auto
  then show ?thesis by (simp add: getBatchTranslations_def)
qed

text \<open>
  C8. For every cache state and every query, \<open>getBatchTranslations\<close> returns no entry of
  another owner: the answer is the same as on the table with every other owner's rows
  removed, and each pair of the returned map is the original text and the translation of
  one row of the queried owner. Nothing is assumed about the stored hashes, so rows of
  other owners whose hash collides with a queried text are included.
\<close>

theorem getBatchTranslations_owner_scoped:
  "getBatchTranslations ok db owner texts =
     getBatchTranslations ok (db\<lparr>rows := filter (\<lambda>r. bookId r = owner) (rows db)\<rparr>) owner texts
   \<and> (\<forall>k v. getBatchTranslations ok db owner texts k = Some v \<longrightarrow>
        (\<exists>r \<in> set (rows db). bookId r = owner \<and> originalText r = k \<and> translatedText r = v))"
  using getBatchTranslations_from_row [of ok db owner texts]
  by (simp add: getBatchTranslations_restrict) blast

lemma collisionAcross_lookup:
  "getBatchTranslations True collisionAcross (js ''bookX'') [js ''Aa''] =
     [js ''Aa'' \<mapsto> js ''TransAa'']"
  by (simp add: getBatchTranslations_def collisionAcross_def mkRecord_def hash_Aa hash_BB)
     (simp add: js_def)

theorem getBatchTranslations_owner_scoped_witness:
  "generateSentenceHash (js ''BB'') = generateSentenceHash (js ''Aa'')
   \<and> getBatchTranslations True collisionAcross (js ''bookX'') [js ''Aa''] (js ''Aa'')
       = Some (js ''TransAa'')
   \<and> (\<exists>r \<in> set (rows collisionAcross).
         bookId r = js ''bookX'' \<and> originalText r = js ''Aa'' \<and> translatedText r = js ''TransAa'')
   \<and> getBatchTranslations True collisionAcross (js ''bookX'') [js ''Aa''] (js ''BB'') = None"
proof -
  have hit: "getBatchTranslations True collisionAcross (js ''bookX'') [js ''Aa''] (js ''Aa'')
               = Some (js ''TransAa'')"
    by (simp add: collisionAcross_lookup)
  have miss: "getBatchTranslations True collisionAcross (js ''bookX'') [js ''Aa''] (js ''BB'') = None"
    using js_Aa_neq_BB by (simp add: collisionAcross_lookup)
  from getBatchTranslations_owner_scoped [of True collisionAcross "js ''bookX''" "[js ''Aa'']"] hit
  have "\<exists>r \<in> set (rows collisionAcross).
         bookId r = js ''bookX'' \<and> originalText r = js ''Aa'' \<and> translatedText r = js ''TransAa''"
    by blast
  with hit miss show ?thesis by (simp add: hash_Aa hash_BB)
qed

text \<open>
  C9. Every key of the returned map is the stored \<open>originalText\<close> of a row of the queried
  owner whose stored hash is the hash of a queried text. Hence a queried text that is the
  original text of no row of that owner gets no translation, whatever its hash; and the
  map can hold a key that was not queried: on \<open>collisionWithin\<close> the query \<open>Aa\<close> returns the
  single key \<open>BB\<close>.
\<close>

theorem getBatchTranslations_keys_are_stored_texts:
  "(\<forall>k \<in> dom (getBatchTranslations ok db owner texts).
      \<exists>r \<in> set (rows db). bookId r = owner \<and> originalText r = k \<and>
        sentenceHash r \<in> generateSentenceHash ` set texts)
   \<and> (\<forall>t. (\<forall>r \<in> set (rows db). bookId r = owner \<longrightarrow> originalText r \<noteq> t) \<longrightarrow>
        getBatchTranslations ok db owner texts t = None)
   \<and> (generateSentenceHash (js ''Aa'') = generateSentenceHash (js ''BB'')
      \<and> js ''BB'' \<in> dom (getBatchTranslations True collisionWithin (js ''bookX'') [js ''Aa''])
      \<and> js ''BB'' \<notin> set [js ''Aa'']
      \<and> getBatchTranslations True collisionWithin (js ''bookX'') [js ''Aa''] (js ''Aa'') = None)"
proof (intro conjI)
  show "\<forall>k \<in> dom (getBatchTranslations ok db owner texts).
      \<exists>r \<in> set (rows db). bookId r = owner \<and> originalText r = k \<and>
        sentenceHash r \<in> generateSentenceHash ` set texts"
    using getBatchTranslations_from_row [of ok db owner texts] by blast
  show "\<forall>t. (\<forall>r \<in> set (rows db). bookId r = owner \<longrightarrow> originalText r \<noteq> t) \<longrightarrow>
        getBatchTranslations ok db owner texts t = None"
    using getBatchTranslations_from_row [of ok db owner texts]
    by (metis not_Some_eq)
  have m: "getBatchTranslations True collisionWithin (js ''bookX'') [js ''Aa''] =
             [js ''BB'' \<mapsto> js ''TransBB'']"
    by (simp add: getBatchTranslations_def collisionWithin_def mkRecord_def hash_Aa hash_BB)
  show "generateSentenceHash (js ''Aa'') = generateSentenceHash (js ''BB'')"
    by (simp add: hash_Aa hash_BB)
  show "js ''BB'' \<in> dom (getBatchTranslations True collisionWithin (js ''bookX'') [js ''Aa''])"
    by (simp add: m)
  show "js ''BB'' \<notin> set [js ''Aa'']"
    using js_Aa_neq_BB by simp
  show "getBatchTranslations True collisionWithin (js ''bookX'') [js ''Aa''] (js ''Aa'') = None"
    using js_Aa_neq_BB by (simp add: m)
qed

theorem getBatchTranslations_keys_are_stored_texts_witness:
  "js ''BB'' \<in> dom (getBatchTranslations True collisionWithin (js ''bookX'') [js ''Aa''])
   \<and> (\<exists>r \<in> set (rows collisionWithin). bookId r = js ''bookX'' \<and> originalText r = js ''BB'' \<and>
        sentenceHash r \<in> generateSentenceHash ` set [js ''Aa''])
   \<and> js ''Aa'' \<notin> originalText ` {r \<in> set (rows collisionWithin). bookId r = js ''bookX''}
   \<and> getBatchTranslations True collisionWithin (js ''bookX'') [js ''Aa''] (js ''Aa'') = None"
proof -
  note inst = getBatchTranslations_keys_are_stored_texts
               [of True collisionWithin "js ''bookX''" "[js ''Aa'']"]
  have differs: "\<forall>r \<in> set (rows collisionWithin). bookId r = js ''bookX'' \<longrightarrow> originalText r \<noteq> js ''Aa''"
    using js_Aa_neq_BB by (simp add: collisionWithin_def mkRecord_def)
  from inst have d: "js ''BB'' \<in> dom (getBatchTranslations True collisionWithin (js ''bookX'') [js ''Aa''])"
    by (elim conjE)
  from inst [THEN conjunct1, rule_format, OF d]
  have row: "\<exists>r \<in> set (rows collisionWithin). bookId r = js ''bookX'' \<and> originalText r = js ''BB'' \<and>
        sentenceHash r \<in> generateSentenceHash ` set [js ''Aa'']" .
  from inst [THEN conjunct2, THEN conjunct1, THEN spec, of "js ''Aa''", THEN mp, OF differs]
  have none: "getBatchTranslations True collisionWithin (js ''bookX'') [js ''Aa''] (js ''Aa'') = None" .
  have notin: "js ''Aa'' \<notin> originalText ` {r \<in> set (rows collisionWithin). bookId r = js ''bookX''}"
    using differs by auto
  from d row notin none show ?thesis by (intro conjI)
qed

section \<open>Properties of the progress percentage\<close>




lemma fl_1: "fl 1 = 1"
  by code_simp

lemma fl_100: "fl 100 = 100"
  by code_simp



lemma calcProgress_full: "0 < n \<Longrightarrow> calcProgress n n = Finite 100"
  by (simp add: calcProgress_def divideLengths_def fl_1 fl_100)




section \<open>Properties of the synchronous operations\<close>

lemmas sync_defs =
  pauseTranslation_def stopTranslation_def clearCompletedTask_def notify_def message_def
  abort_def

text \<open>
  C3 (as amended). \<open>pauseTranslation\<close> on a running task sets its status to \<open>Paused\<close>, aborts
  the controller and notifies the listeners with the paused task; the end time and every
  other field of the task are left as they were, and so are the loops, the cache and the
  requests. On any other state it does nothing.
\<close>

theorem pauseTranslation_effect:
  "(currentTask w = Some t \<and> status t = Running \<longrightarrow>
      currentTask (pauseTranslation w) = Some (t\<lparr>status := Paused\<rparr>)
      \<and> map_option endTime (currentTask (pauseTranslation w)) = Some (endTime t)
      \<and> abortController (pauseTranslation w) = map_option (\<lambda>_. True) (abortController w)
      \<and> notified (pauseTranslation w) = notified w @ [Some (t\<lparr>status := Paused\<rparr>)]
      \<and> toasts (pauseTranslation w) = toasts w @ [InfoPaused]
      \<and> loops (pauseTranslation w) = loops w
      \<and> cache (pauseTranslation w) = cache w
      \<and> requests (pauseTranslation w) = requests w)
   \<and> ((\<forall>t'. currentTask w = Some t' \<longrightarrow> status t' \<noteq> Running) \<longrightarrow> pauseTranslation w = w)"
  by (auto simp: sync_defs split: option.splits)

theorem pauseTranslation_effect_witness:
  "map_option status (currentTask runningWorld) = Some Running
   \<and> map_option endTime (currentTask runningWorld) = Some None
   \<and> map_option status (currentTask (pauseTranslation runningWorld)) = Some Paused
   \<and> map_option endTime (currentTask (pauseTranslation runningWorld)) = Some None
   \<and> abortController (pauseTranslation runningWorld) = Some True
   \<and> pauseTranslation (initial None emptyCache) = initial None emptyCache"
proof -
  have st: "map_option status (currentTask runningWorld) = Some Running" by code_simp
  have en: "map_option endTime (currentTask runningWorld) = Some None" by code_simp
  have ab: "abortController runningWorld = Some False" by code_simp
  from st obtain t where t: "currentTask runningWorld = Some t" "status t = Running"
    by (cases "currentTask runningWorld") auto
  from en t have e: "endTime t = None" by simp
  note inst = pauseTranslation_effect [of runningWorld t, THEN conjunct1, rule_format, OF conjI, OF t]
  have idle: "\<forall>t'. currentTask (initial None emptyCache) = Some t' \<longrightarrow> status t' \<noteq> Running"
    by (simp add: initial_def)
  note inst2 = pauseTranslation_effect [of "initial None emptyCache" t, THEN conjunct2, THEN mp, OF idle]
  from inst e ab st en inst2 show ?thesis by simp
qed

text \<open>
  C3 as stated fails: pausing the running task of \<open>runningWorld\<close> at time 7 leaves its end
  time unset.
\<close>

theorem pauseTranslation_endTime_counterexample:
  "map_option status (currentTask runningWorld) = Some Running
   \<and> clock runningWorld = 7
   \<and> map_option endTime (currentTask (pauseTranslation runningWorld)) = Some None
   \<and> map_option endTime (currentTask (pauseTranslation runningWorld))
        \<noteq> Some (Some (clock runningWorld))"
  by code_simp

text \<open>
  C5 (as amended). Without a configured model \<open>startTranslation\<close> creates no task, launches
  no loop, issues no request and leaves the cache alone. When no task is running, the
  state is the one before, but for the error toast. A running task is stopped first: the
  service has no task afterwards, the controller is aborted and the listeners are told
  \<open>null\<close>.
\<close>

theorem startTranslation_without_model:
  "chatModel w = None \<longrightarrow>
     ((\<forall>t. currentTask w = Some t \<longrightarrow> status t \<noteq> Running) \<longrightarrow>
        startTranslation e bId title allSentences bSize w
          = w\<lparr>toasts := toasts w @ [ErrorConfigureModel]\<rparr>)
     \<and> ((\<exists>t. currentTask w = Some t \<and> status t = Running) \<longrightarrow>
          startTranslation e bId title allSentences bSize w
            = message ErrorConfigureModel (stopTranslation w)
          \<and> currentTask (startTranslation e bId title allSentences bSize w) = None
          \<and> abortController (startTranslation e bId title allSentences bSize w)
              = map_option (\<lambda>_. True) (abortController w)
          \<and> notified (startTranslation e bId title allSentences bSize w) = notified w @ [None])
     \<and> requests (startTranslation e bId title allSentences bSize w) = requests w
     \<and> loops (startTranslation e bId title allSentences bSize w) = loops w
     \<and> cache (startTranslation e bId title allSentences bSize w) = cache w"
  by (auto simp: startTranslation_def sync_defs split: option.splits)

theorem startTranslation_without_model_witness:
  "chatModel runningWithoutModel = None
   \<and> map_option status (currentTask runningWithoutModel) = Some Running
   \<and> currentTask (startTranslation answering (js ''bookX'') (js ''X'') unitsABCD 2
        runningWithoutModel) = None
   \<and> chatModel (initial None emptyCache) = None
   \<and> startTranslation answering (js ''bookX'') (js ''X'') unitsABCD 2 (initial None emptyCache)
       = (initial None emptyCache)\<lparr>toasts := [ErrorConfigureModel]\<rparr>"
proof -
  have cm: "chatModel runningWithoutModel = None" by code_simp
  have st: "map_option status (currentTask runningWithoutModel) = Some Running" by code_simp
  then have run: "\<exists>t. currentTask runningWithoutModel = Some t \<and> status t = Running"
    by (cases "currentTask runningWithoutModel") auto
  from startTranslation_without_model
         [of runningWithoutModel answering "js ''bookX''" "js ''X''" unitsABCD 2] cm run
  have a: "currentTask (startTranslation answering (js ''bookX'') (js ''X'') unitsABCD 2
        runningWithoutModel) = None"
    by blast
  have cm0: "chatModel (initial None emptyCache) = None" by (simp add: initial_def)
  have idle: "\<forall>t. currentTask (initial None emptyCache) = Some t \<longrightarrow> status t \<noteq> Running"
    by (simp add: initial_def)
  from startTranslation_without_model
         [of "initial None emptyCache" answering "js ''bookX''" "js ''X''" unitsABCD 2] cm0 idle
  have b: "startTranslation answering (js ''bookX'') (js ''X'') unitsABCD 2 (initial None emptyCache)
       = (initial None emptyCache)\<lparr>toasts := toasts (initial None emptyCache) @ [ErrorConfigureModel]\<rparr>"
    by blast
  have "toasts (initial None emptyCache) = []" by (simp add: initial_def)
  with b cm st a cm0 show ?thesis by simp
qed

text \<open>
  C5 as stated fails: with a running task and no model, the failed start discards the
  task.
\<close>

theorem startTranslation_without_model_counterexample:
  "chatModel runningWithoutModel = None
   \<and> map_option status (currentTask runningWithoutModel) = Some Running
   \<and> currentTask (startTranslation answering (js ''bookX'') (js ''X'') unitsABCD 2
        runningWithoutModel) = None
   \<and> startTranslation answering (js ''bookX'') (js ''X'') unitsABCD 2 runningWithoutModel
       \<noteq> runningWithoutModel"
proof -
  have cm: "chatModel runningWithoutModel = None" by code_simp
  have st: "map_option status (currentTask runningWithoutModel) = Some Running" by code_simp
  have a: "currentTask (startTranslation answering (js ''bookX'') (js ''X'') unitsABCD 2
        runningWithoutModel) = None" by code_simp
  from st a have "startTranslation answering (js ''bookX'') (js ''X'') unitsABCD 2 runningWithoutModel
       \<noteq> runningWithoutModel" by auto
  with cm st a show ?thesis by (intro conjI)
qed

lemma cached_lookup:
  assumes "s \<in> set allSentences"
    and "\<exists>r \<in> set (rows db). bookId r = bId \<and> originalText r = text' s \<and>
           sentenceHash r = generateSentenceHash (text' s)"
  shows "getBatchTranslations True db bId (map text' allSentences) (text' s) \<noteq> None"
proof -
  from assms have "text' s \<in> dom (getBatchTranslations True db bId (map text' allSentences))"
    unfolding getBatchTranslations_dom by force
  then show ?thesis by blast
qed


lemma stopIfRunning_fields:
  "cache (stopIfRunning w) = cache w"
  "dbOps (stopIfRunning w) = dbOps w"
  "chatModel (stopIfRunning w) = chatModel w"
  "requests (stopIfRunning w) = requests w"
  "loops (stopIfRunning w) = loops w"
  "currentTask (stopIfRunning w) =
     (case currentTask w of None \<Rightarrow> None | Some t \<Rightarrow> if status t = Running then None else Some t)"
  by (simp_all add: stopIfRunning_def sync_defs split: option.splits)

lemma startTranslation_unfold:
  "startTranslation e bId title allSentences bSize w =
     (let w1 = stopIfRunning w
      in case chatModel w1 of
           None \<Rightarrow> message ErrorConfigureModel w1
         | Some model \<Rightarrow>
             let cachedTranslations =
                   getBatchTranslations (storageOk e (dbOps w1)) (cache w1) bId
                     (map text' allSentences);
                 w2 = w1\<lparr>dbOps := Suc (dbOps w1)\<rparr>;
                 needTranslation =
                   filter (\<lambda>s. cachedTranslations (text' s) = None) allSentences
             in if needTranslation = [] then message SuccessAllCached w2
                else
                  executeTranslation e
                    (message (InfoStarted title (length needTranslation)
                                (length allSentences - length needTranslation))
                       (notify (w2\<lparr>currentTask :=
                                    Some \<lparr>bookId' = bId, bookTitle = title,
                                          sentences = needTranslation, batchSize = bSize,
                                          totalSentences = length allSentences,
                                          completedSentences =
                                            length allSentences - length needTranslation,
                                          progress =
                                            calcProgress
                                              (length allSentences - length needTranslation)
                                              (length allSentences),
                                          status = Running, startTime = clock w2,
                                          endTime = None, error = None\<rparr>,
                                  abortController := Some False\<rparr>))))"
  unfolding startTranslation_def stopIfRunning_def Let_def
  by (simp cong: option.case_cong if_cong)

text \<open>
  C6 (as amended). With a model configured, the storage layer answering, and each sentence
  of the work set stored in the cache for the owner under its hash, \<open>startTranslation\<close>
  creates no task: afterwards the service has no task if it had none or a running one
  (which is stopped first), and it still has the task it had if that one was paused,
  completed or failed. No request is issued, no loop is launched, the cache is unchanged,
  and the last toast reports that everything is cached.
\<close>

theorem startTranslation_all_cached:
  "chatModel w = Some model \<and> storageOk e (dbOps w)
   \<and> (\<forall>s \<in> set allSentences. \<exists>r \<in> set (rows (cache w)).
          bookId r = bId \<and> originalText r = text' s \<and>
          sentenceHash r = generateSentenceHash (text' s))
   \<longrightarrow>
     currentTask (startTranslation e bId title allSentences bSize w)
       = (case currentTask w of
            None \<Rightarrow> None
          | Some t \<Rightarrow> if status t = Running then None else Some t)
     \<and> requests (startTranslation e bId title allSentences bSize w) = requests w
     \<and> loops (startTranslation e bId title allSentences bSize w) = loops w
     \<and> cache (startTranslation e bId title allSentences bSize w) = cache w
     \<and> toasts (startTranslation e bId title allSentences bSize w) \<noteq> []
     \<and> last (toasts (startTranslation e bId title allSentences bSize w)) = SuccessAllCached"
proof (intro impI, elim conjE)
  assume model: "chatModel w = Some model" and ok: "storageOk e (dbOps w)"
    and stored: "\<forall>s \<in> set allSentences. \<exists>r \<in> set (rows (cache w)).
          bookId r = bId \<and> originalText r = text' s \<and>
          sentenceHash r = generateSentenceHash (text' s)"
  have "\<forall>s \<in> set allSentences.
          getBatchTranslations True (cache w) bId (map text' allSentences) (text' s) \<noteq> None"
    using stored cached_lookup by blast
  then have none: "filter (\<lambda>s. getBatchTranslations True (cache w) bId (map text' allSentences)
                       (text' s) = None) allSentences = []"
    by (simp add: filter_empty_conv)
  have eq: "startTranslation e bId title allSentences bSize w =
          message SuccessAllCached ((stopIfRunning w)\<lparr>dbOps := Suc (dbOps w)\<rparr>)"
    using model ok none by (simp add: startTranslation_unfold stopIfRunning_fields)
  show "currentTask (startTranslation e bId title allSentences bSize w)
       = (case currentTask w of
            None \<Rightarrow> None
          | Some t \<Rightarrow> if status t = Running then None else Some t)
     \<and> requests (startTranslation e bId title allSentences bSize w) = requests w
     \<and> loops (startTranslation e bId title allSentences bSize w) = loops w
     \<and> cache (startTranslation e bId title allSentences bSize w) = cache w
     \<and> toasts (startTranslation e bId title allSentences bSize w) \<noteq> []
     \<and> last (toasts (startTranslation e bId title allSentences bSize w)) = SuccessAllCached"
    unfolding eq by (simp add: message_def stopIfRunning_fields)
qed

theorem startTranslation_all_cached_witness:
  "chatModel idleWithA = Some (js ''model'')
   \<and> storageOk answering (dbOps idleWithA)
   \<and> (\<exists>r \<in> set (rows (cache idleWithA)). bookId r = js ''bookX'' \<and> originalText r = js ''A.'' \<and>
          sentenceHash r = generateSentenceHash (js ''A.''))
   \<and> currentTask (startTranslation answering (js ''bookX'') (js ''X'') [sentenceOf ''A.'' 0] 2
        idleWithA) = None
   \<and> requests (startTranslation answering (js ''bookX'') (js ''X'') [sentenceOf ''A.'' 0] 2
        idleWithA) = []
   \<and> last (toasts (startTranslation answering (js ''bookX'') (js ''X'') [sentenceOf ''A.'' 0] 2
        idleWithA)) = SuccessAllCached"
proof -
  have model: "chatModel idleWithA = Some (js ''model'')"
    by (simp add: idleWithA_def initial_def)
  have ok: "storageOk answering (dbOps idleWithA)"
    by (simp add: answering_def)
  have row: "\<exists>r \<in> set (rows (cache idleWithA)). bookId r = js ''bookX'' \<and> originalText r = js ''A.'' \<and>
          sentenceHash r = generateSentenceHash (js ''A.'')"
    by (simp add: idleWithA_def initial_def cacheWithA_def mkRecord_def)
  then have stored: "\<forall>s \<in> set [sentenceOf ''A.'' 0]. \<exists>r \<in> set (rows (cache idleWithA)).
          bookId r = js ''bookX'' \<and> originalText r = text' s \<and>
          sentenceHash r = generateSentenceHash (text' s)"
    by (simp add: sentenceOf_def)
  have idle: "currentTask idleWithA = None" "requests idleWithA = []"
    by (simp_all add: idleWithA_def initial_def)
  from startTranslation_all_cached
         [of idleWithA "js ''model''" answering "[sentenceOf ''A.'' 0]" "js ''bookX''" "js ''X''" 2,
          THEN mp, OF conjI [OF model conjI [OF ok stored]]] idle model ok row
  show ?thesis by simp
qed

text \<open>
  C6 as stated fails: in \<open>pausedWorld\<close> the only sentence of the work set is cached for
  \<open>bookX\<close>, and after the start the service still holds the paused task of \<open>bookY\<close>.
\<close>

theorem startTranslation_all_cached_counterexample:
  "chatModel pausedWorld = Some (js ''model'')
   \<and> getBatchTranslations (storageOk answering (dbOps pausedWorld)) (cache pausedWorld)
        (js ''bookX'') [js ''A.''] (js ''A.'') = Some (js ''TransA'')
   \<and> map_option status (currentTask pausedWorld) = Some Paused
   \<and> map_option status
        (currentTask (startTranslation answering (js ''bookX'') (js ''X'') [sentenceOf ''A.'' 0] 2
           pausedWorld)) = Some Paused
   \<and> currentTask (startTranslation answering (js ''bookX'') (js ''X'') [sentenceOf ''A.'' 0] 2
        pausedWorld) \<noteq> None"
  by code_simp


section \<open>Properties of the loop\<close>

lemma saveTranslationToDB_frame [simp]:
  "currentTask (saveTranslationToDB e bId orig tr w) = currentTask w"
  "abortController (saveTranslationToDB e bId orig tr w) = abortController w"
  "notified (saveTranslationToDB e bId orig tr w) = notified w"
  "toasts (saveTranslationToDB e bId orig tr w) = toasts w"
  "requests (saveTranslationToDB e bId orig tr w) = requests w"
  "loops (saveTranslationToDB e bId orig tr w) = loops w"
  "chatModel (saveTranslationToDB e bId orig tr w) = chatModel w"
  "clock (saveTranslationToDB e bId orig tr w) = clock w"
  by (simp_all add: saveTranslationToDB_def)

lemma saveBatch_frame [simp]:
  "currentTask (saveBatch e bId m batch w) = currentTask w"
  "abortController (saveBatch e bId m batch w) = abortController w"
  "notified (saveBatch e bId m batch w) = notified w"
  "toasts (saveBatch e bId m batch w) = toasts w"
  "requests (saveBatch e bId m batch w) = requests w"
  "loops (saveBatch e bId m batch w) = loops w"
  "chatModel (saveBatch e bId m batch w) = chatModel w"
  "clock (saveBatch e bId m batch w) = clock w"
  unfolding saveBatch_def
  by (induction batch arbitrary: w; simp split: option.splits)+



lemma cancelled_paused:
  "currentTask w = Some t \<Longrightarrow> status t \<noteq> Running \<Longrightarrow> cancelled w = Some True"
  by (simp add: cancelled_def)





lemma afterSingle_frame [simp]:
  "currentTask (afterSingle e l s w) = currentTask w"
  "abortController (afterSingle e l s w) = abortController w"
  "notified (afterSingle e l s w) = notified w"
  "toasts (afterSingle e l s w) = toasts w"
  "requests (afterSingle e l s w) = requests w"
  "loops (afterSingle e l s w) = loops w"
  "chatModel (afterSingle e l s w) = chatModel w"
  "clock (afterSingle e l s w) = clock w"
  by (simp_all add: afterSingle_def split: sum.splits)

lemma cancelled_afterSingle [simp]: "cancelled (afterSingle e l s w) = cancelled w"
  by (simp add: cancelled_def)

lemma cancelled_saveBatch [simp]: "cancelled (saveBatch e bId m batch w) = cancelled w"
  by (simp add: cancelled_def)



declare step.simps [simp del]





















































text \<open>
  C4 fails on the code. In \<open>staleAfterRestart\<close> the loop of the stopped task for \<open>bookA\<close>
  goes on after the start for \<open>bookB\<close> (the fresh controller is not aborted, the new task
  is running) and writes its own count into the new task: 3 of 1 sentences, with the
  percentage 75 of the old total, where the formula gives 100 for this count and total;
  the listeners are notified with this task. The new loop then writes 1: the count goes
  down while the task is running. In \<open>staleAfterResume\<close> the loop that was paused and the
  loop that was resumed both run, and the count goes from 4 to 3 while the task is
  running.
\<close>

theorem stale_loop_breaks_invariants:
  "snapshot (run answering (take 3 staleAfterRestart) fresh) = Some (0, 1, Finite 0, Running)
   \<and> snapshot (run answering (take 4 staleAfterRestart) fresh) = Some (3, 1, Finite 75, Running)
   \<and> last (notified (run answering (take 4 staleAfterRestart) fresh))
       = currentTask (run answering (take 4 staleAfterRestart) fresh)
   \<and> calcProgress 3 1 = Finite 100
   \<and> snapshot (run answering staleAfterRestart fresh) = Some (1, 1, Finite 100, Running)
   \<and> snapshot (run answering (take 6 staleAfterResume) fresh) = Some (4, 4, Finite 100, Running)
   \<and> snapshot (run answering staleAfterResume fresh) = Some (3, 4, Finite 75, Running)"
  by code_simp


end
